theory Spec2Isabelle
  imports Main "HOL-Library.AList" "HOL-Library.Char_ord" "HOL-Library.List_Lexorder"
begin

section \<open>JavaScript values\<close>

text \<open>
  The script (assets/js/main.js) works on values that come out of \<^verbatim>\<open>JSON.parse\<close>:
  repository summaries of the hosting API and the hand-written override document.
  They are modelled as a datatype of JSON-shaped values, together with \<open>undefined\<close>
  (what reading a missing property gives).

  Scope of the embedding:
  \<^item> strings are byte strings; case mapping and white space are those of ASCII;
  \<^item> numbers are integers (star counts, HTTP status codes);
  \<^item> a property read sees the own properties of a value.  Methods are modelled where
    they are called (\<open>as_array\<close> for \<^verbatim>\<open>.map\<close>/\<^verbatim>\<open>.join\<close>, \<open>as_string\<close> for
    \<^verbatim>\<open>.toLowerCase\<close>/\<^verbatim>\<open>.replace\<close>); names that a plain object inherits from
    its prototype (\<^verbatim>\<open>constructor\<close>, \<^verbatim>\<open>__proto__\<close>, ...) are outside the model;
  \<^item> every event handler runs to completion: an \<^verbatim>\<open>async\<close> function is modelled by
    the state it leaves once its awaited requests have settled.
\<close>

datatype jsval =
    Undefined
  | Null
  | Bool bool
  | Num int
  | Str string
  | Arr "jsval list"
  | Obj "(string \<times> jsval) list"

text \<open>What the script can throw or see rejected.\<close>

datatype error =
    TypeError                \<comment> \<open>property of null/undefined, call of a non-function\<close>
  | URIError                 \<comment> \<open>\<^verbatim>\<open>decodeURIComponent\<close> on a malformed escape\<close>
  | SyntaxError              \<comment> \<open>\<^verbatim>\<open>res.json()\<close> on a body that is not JSON\<close>
  | NetworkError             \<comment> \<open>\<^verbatim>\<open>fetch\<close> rejected\<close>
  | InvalidCharacterError    \<comment> \<open>\<^verbatim>\<open>atob\<close> on text that is not base64\<close>
  | GitHubError nat          \<comment> \<open>\<^verbatim>\<open>new Error(`GitHub API error: ${res.status}`)\<close>\<close>

definition bindE :: "error + 'a \<Rightarrow> ('a \<Rightarrow> error + 'b) \<Rightarrow> error + 'b" where
  "bindE m f = (case m of Inl e \<Rightarrow> Inl e | Inr x \<Rightarrow> f x)"

subsection \<open>Strings\<close>

definition digit_char :: "nat \<Rightarrow> char" where
  "digit_char d = ''0123456789'' ! (d mod 10)"

fun string_of_nat :: "nat \<Rightarrow> string" where
  "string_of_nat n =
     (if n < 10 then [digit_char n] else string_of_nat (n div 10) @ [digit_char (n mod 10)])"

definition string_of_int :: "int \<Rightarrow> string" where
  "string_of_int i = (if i < 0 then CHR ''-'' # string_of_nat (nat (- i)) else string_of_nat (nat i))"

fun intercalate :: "'a list \<Rightarrow> 'a list list \<Rightarrow> 'a list" where
  "intercalate sep [] = []"
| "intercalate sep [x] = x"
| "intercalate sep (x # y # ys) = x @ sep @ intercalate sep (y # ys)"

definition lower_char :: "char \<Rightarrow> char" where
  "lower_char c =
     (let n = (of_char c :: nat) in if 65 \<le> n \<and> n \<le> 90 then char_of (n + 32) else c)"

definition toLowerCase :: "string \<Rightarrow> string" where
  "toLowerCase s = map lower_char s"

definition is_space :: "char \<Rightarrow> bool" where
  "is_space c = ((of_char c :: nat) \<in> {9, 10, 11, 12, 13, 32})"

definition trim :: "string \<Rightarrow> string" where
  "trim s = rev (dropWhile is_space (rev (dropWhile is_space s)))"

definition startsWith :: "string \<Rightarrow> string \<Rightarrow> bool" where
  "startsWith s p = (take (length p) s = p)"

text \<open>\<^verbatim>\<open>hay.includes(q)\<close>: \<open>q\<close> occurs in \<open>hay\<close> as a contiguous run.\<close>

fun includes_str :: "string \<Rightarrow> string \<Rightarrow> bool" where
  "includes_str [] q = (q = [])"
| "includes_str (c # cs) q = (startsWith (c # cs) q \<or> includes_str cs q)"

text \<open>\<^verbatim>\<open>s.replace(p, r)\<close> with a string pattern: the first occurrence only.\<close>

fun replace_first :: "string \<Rightarrow> string \<Rightarrow> string \<Rightarrow> string" where
  "replace_first p r [] = (if p = [] then r else [])"
| "replace_first p r (c # cs) =
     (if startsWith (c # cs) p then r @ drop (length p) (c # cs) else c # replace_first p r cs)"

text \<open>\<^verbatim>\<open>s.split(sep)\<close> for a one-character separator: never the empty list.\<close>

fun split :: "char \<Rightarrow> string \<Rightarrow> string list" where
  "split sep [] = [[]]"
| "split sep (c # cs) =
     (if c = sep then [] # split sep cs
      else (case split sep cs of [] \<Rightarrow> [[c]] | w # ws \<Rightarrow> (c # w) # ws))"

subsection \<open>Truthiness, conversion to string, property access\<close>

fun truthy :: "jsval \<Rightarrow> bool" where
  "truthy Undefined = False"
| "truthy Null = False"
| "truthy (Bool b) = b"
| "truthy (Num n) = (n \<noteq> 0)"
| "truthy (Str s) = (s \<noteq> [])"
| "truthy (Arr xs) = True"
| "truthy (Obj kvs) = True"

text \<open>\<open>a || b\<close> on values that are already evaluated.\<close>

definition js_or :: "jsval \<Rightarrow> jsval \<Rightarrow> jsval" where
  "js_or a b = (if truthy a then a else b)"

text \<open>
  \<open>ToString\<close>, as applied by template literals, \<^verbatim>\<open>Array.prototype.join\<close> and computed
  property keys.  In a join, \<open>null\<close> and \<open>undefined\<close> elements give the empty string.
\<close>

fun ToString :: "jsval \<Rightarrow> string" where
  "ToString Undefined = ''undefined''"
| "ToString Null = ''null''"
| "ToString (Bool b) = (if b then ''true'' else ''false'')"
| "ToString (Num n) = string_of_int n"
| "ToString (Str s) = s"
| "ToString (Arr xs) =
     intercalate '','' (map (\<lambda>x. if x = Undefined \<or> x = Null then [] else ToString x) xs)"
| "ToString (Obj kvs) = ''[object Object]''"

definition join :: "string \<Rightarrow> jsval list \<Rightarrow> string" where
  "join sep xs =
     intercalate sep (map (\<lambda>x. if x = Undefined \<or> x = Null then [] else ToString x) xs)"

definition own :: "(string \<times> jsval) list \<Rightarrow> string \<Rightarrow> jsval" where
  "own kvs k = (case map_of kvs k of None \<Rightarrow> Undefined | Some v \<Rightarrow> v)"

definition index_key :: "string \<Rightarrow> nat \<Rightarrow> nat option" where
  "index_key k n = List.find (\<lambda>i. string_of_nat i = k) [0..<n]"

text \<open>\<open>v.k\<close> and \<open>v[k]\<close>: a TypeError on \<open>null\<close> and \<open>undefined\<close>, otherwise the own property.\<close>

fun get :: "jsval \<Rightarrow> string \<Rightarrow> error + jsval" where
  "get Undefined k = Inl TypeError"
| "get Null k = Inl TypeError"
| "get (Bool b) k = Inr Undefined"
| "get (Num n) k = Inr Undefined"
| "get (Str s) k =
     Inr (if k = ''length'' then Num (int (length s))
          else (case index_key k (length s) of Some i \<Rightarrow> Str [s ! i] | None \<Rightarrow> Undefined))"
| "get (Arr xs) k =
     Inr (if k = ''length'' then Num (int (length xs))
          else (case index_key k (length xs) of Some i \<Rightarrow> xs ! i | None \<Rightarrow> Undefined))"
| "get (Obj kvs) k = Inr (own kvs k)"

text \<open>
  \<open>v.k = x\<close>, returning the updated value.  The script is a classic (non-strict) script:
  a write to a property of a primitive is ignored.  An array would take the write as an
  extra named property, which this value type does not hold; the script only ever writes
  the named properties \<^verbatim>\<open>_curated\<close> and \<^verbatim>\<open>description\<close>.
\<close>

fun set_prop :: "jsval \<Rightarrow> string \<Rightarrow> jsval \<Rightarrow> error + jsval" where
  "set_prop Undefined k x = Inl TypeError"
| "set_prop Null k x = Inl TypeError"
| "set_prop (Obj kvs) k x = Inr (Obj (AList.update k x kvs))"
| "set_prop v k x = Inr v"

text \<open>The receiver of \<^verbatim>\<open>.map(...)\<close> and \<^verbatim>\<open>.join(...)\<close>: only an array has them.\<close>

definition as_array :: "jsval \<Rightarrow> error + jsval list" where
  "as_array v = (case v of Arr xs \<Rightarrow> Inr xs | _ \<Rightarrow> Inl TypeError)"

text \<open>The receiver of \<^verbatim>\<open>.toLowerCase()\<close> and \<^verbatim>\<open>.replace(...)\<close>: only a string has them.\<close>

definition as_string :: "jsval \<Rightarrow> error + string" where
  "as_string v = (case v of Str s \<Rightarrow> Inr s | _ \<Rightarrow> Inl TypeError)"

section \<open>Browser built-ins\<close>

subsection \<open>\<^verbatim>\<open>atob\<close>: forgiving base64 decoding\<close>

definition b64_value :: "char \<Rightarrow> nat option" where
  "b64_value c =
     (let n = (of_char c :: nat) in
      if 65 \<le> n \<and> n \<le> 90 then Some (n - 65)
      else if 97 \<le> n \<and> n \<le> 122 then Some (n - 71)
      else if 48 \<le> n \<and> n \<le> 57 then Some (n + 4)
      else if n = 43 then Some 62
      else if n = 47 then Some 63
      else None)"

fun b64_bytes :: "nat list \<Rightarrow> string" where
  "b64_bytes (a # b # c # d # rest) =
     [char_of (a * 4 + b div 16), char_of ((b mod 16) * 16 + c div 4), char_of ((c mod 4) * 64 + d)]
       @ b64_bytes rest"
| "b64_bytes [a, b, c] = [char_of (a * 4 + b div 16), char_of ((b mod 16) * 16 + c div 4)]"
| "b64_bytes [a, b] = [char_of (a * 4 + b div 16)]"
| "b64_bytes _ = []"

definition strip_padding :: "string \<Rightarrow> string" where
  "strip_padding d =
     (if length d mod 4 \<noteq> 0 then d
      else if 2 \<le> length d \<and> drop (length d - 2) d = ''=='' then take (length d - 2) d
      else if 1 \<le> length d \<and> drop (length d - 1) d = ''='' then take (length d - 1) d
      else d)"

definition atob :: "string \<Rightarrow> error + string" where
  "atob s =
     (let d = strip_padding (filter (\<lambda>c. (of_char c :: nat) \<notin> {9, 10, 12, 13, 32}) s) in
      if length d mod 4 = 1 then Inl InvalidCharacterError
      else (case those (map b64_value d) of
              None \<Rightarrow> Inl InvalidCharacterError
            | Some vs \<Rightarrow> Inr (b64_bytes vs)))"

subsection \<open>\<^verbatim>\<open>decodeURIComponent\<close>\<close>

datatype uri_token = Lit char | Esc nat

definition hex_value :: "char \<Rightarrow> nat option" where
  "hex_value c =
     (let n = (of_char c :: nat) in
      if 48 \<le> n \<and> n \<le> 57 then Some (n - 48)
      else if 65 \<le> n \<and> n \<le> 70 then Some (n - 55)
      else if 97 \<le> n \<and> n \<le> 102 then Some (n - 87)
      else None)"

fun uri_tokens :: "string \<Rightarrow> uri_token list option" where
  "uri_tokens [] = Some []"
| "uri_tokens (c # cs) =
     (if c = CHR ''%'' then
        (case cs of
           h1 # h2 # rest \<Rightarrow>
             (case (hex_value h1, hex_value h2) of
                (Some a, Some b) \<Rightarrow> map_option ((#) (Esc (16 * a + b))) (uri_tokens rest)
              | _ \<Rightarrow> None)
         | _ \<Rightarrow> None)
      else map_option ((#) (Lit c)) (uri_tokens cs))"

text \<open>The number of leading 1 bits of an octet: the length of the UTF-8 sequence it starts.\<close>

definition utf8_length :: "nat \<Rightarrow> nat" where
  "utf8_length b =
     (if b < 0x80 then 0 else if b < 0xC0 then 1 else if b < 0xE0 then 2
      else if b < 0xF0 then 3 else if b < 0xF8 then 4 else 5)"

definition continuation :: "nat \<Rightarrow> bool" where
  "continuation b = (0x80 \<le> b \<and> b \<le> 0xBF)"

text \<open>Well-formed UTF-8 sequences of two to four octets (no overlong form, no surrogate).\<close>

definition utf8_ok :: "nat list \<Rightarrow> bool" where
  "utf8_ok bs =
     (case bs of
        [b0, b1] \<Rightarrow> 0xC2 \<le> b0 \<and> b0 \<le> 0xDF \<and> continuation b1
      | [b0, b1, b2] \<Rightarrow>
          ((b0 = 0xE0 \<and> 0xA0 \<le> b1 \<and> b1 \<le> 0xBF) \<or> (0xE1 \<le> b0 \<and> b0 \<le> 0xEC \<and> continuation b1) \<or>
           (b0 = 0xED \<and> 0x80 \<le> b1 \<and> b1 \<le> 0x9F) \<or> (0xEE \<le> b0 \<and> b0 \<le> 0xEF \<and> continuation b1))
          \<and> continuation b2
      | [b0, b1, b2, b3] \<Rightarrow>
          ((b0 = 0xF0 \<and> 0x90 \<le> b1 \<and> b1 \<le> 0xBF) \<or> (0xF1 \<le> b0 \<and> b0 \<le> 0xF3 \<and> continuation b1) \<or>
           (b0 = 0xF4 \<and> 0x80 \<le> b1 \<and> b1 \<le> 0x8F))
          \<and> continuation b2 \<and> continuation b3
      | _ \<Rightarrow> False)"

definition esc_byte :: "uri_token \<Rightarrow> nat option" where
  "esc_byte t = (case t of Esc b \<Rightarrow> Some b | Lit c \<Rightarrow> None)"

fun uri_decode :: "uri_token list \<Rightarrow> string option" where
  "uri_decode [] = Some []"
| "uri_decode (Lit c # ts) = map_option ((#) c) (uri_decode ts)"
| "uri_decode (Esc b # ts) =
     (if b < 0x80 then map_option ((#) (char_of b)) (uri_decode ts)
      else if utf8_length b < 2 \<or> 4 < utf8_length b \<or> length ts < utf8_length b - 1 then None
      else (case those (map esc_byte (take (utf8_length b - 1) ts)) of
              None \<Rightarrow> None
            | Some conts \<Rightarrow>
                if utf8_ok (b # conts)
                then map_option ((@) (map char_of (b # conts))) (uri_decode (drop (utf8_length b - 1) ts))
                else None))"

definition decodeURIComponent :: "string \<Rightarrow> error + string" where
  "decodeURIComponent s =
     (case uri_tokens s of
        None \<Rightarrow> Inl URIError
      | Some ts \<Rightarrow> (case uri_decode ts of None \<Rightarrow> Inl URIError | Some r \<Rightarrow> Inr r))"

subsection \<open>The hash of a URL given to \<^verbatim>\<open>history.replaceState\<close>\<close>

text \<open>
  The URL parser strips leading and trailing C0 controls and spaces, drops tabs and
  newlines, and percent-encodes in the fragment the C0 controls, the space, the
  characters \<^verbatim>\<open>" < > `\<close> and everything above \<^verbatim>\<open>~\<close>.  \<^verbatim>\<open>location.hash\<close> is then
  \<^verbatim>\<open>#\<close> followed by the fragment, or empty when the fragment is.
\<close>

definition hex_digit :: "nat \<Rightarrow> char" where
  "hex_digit d = ''0123456789ABCDEF'' ! (d mod 16)"

definition fragment_encode :: "char \<Rightarrow> string" where
  "fragment_encode c =
     (let n = (of_char c :: nat) in
      if n < 0x21 \<or> 0x7E < n \<or> n \<in> {0x22, 0x3C, 0x3E, 0x60}
      then [CHR ''%'', hex_digit (n div 16), hex_digit (n mod 16)] else [c])"

definition c0_or_space :: "char \<Rightarrow> bool" where
  "c0_or_space c = ((of_char c :: nat) \<le> 0x20)"

definition url_hash :: "string \<Rightarrow> string" where
  "url_hash u =
     (let v = filter (\<lambda>c. (of_char c :: nat) \<notin> {9, 10, 13})
                (rev (dropWhile c0_or_space (rev (dropWhile c0_or_space u))));
          fragment = drop 1 (dropWhile (\<lambda>c. c \<noteq> CHR ''#'') v)
      in if fragment = [] then [] else CHR ''#'' # concat (map fragment_encode fragment))"

subsection \<open>The network and the libraries\<close>

text \<open>
  The outcome of a \<^verbatim>\<open>fetch\<close>: the request fails, or a response arrives with a status and
  a body; the body is \<open>None\<close> when \<^verbatim>\<open>res.json()\<close> rejects.
\<close>

datatype response = NetworkFailure | Response nat "jsval option"

definition ok :: "nat \<Rightarrow> bool" where
  "ok status = (200 \<le> status \<and> status \<le> 299)"

record request =
  url :: string
  headers :: "(string \<times> string) list"
  cache :: "string option"

text \<open>
  What the page does not define itself: the network, the markdown and sanitizer libraries
  loaded beside the script (with the options the script passes; taken to return a string
  for every string), the locale's date format and the engine's error messages.
\<close>

record env =
  fetch :: "request \<Rightarrow> response"
  marked_parse :: "string \<Rightarrow> string"
  DOMPurify_sanitize :: "string \<Rightarrow> string"
  toLocaleDateString :: "jsval \<Rightarrow> string"
  native_message :: "error \<Rightarrow> string"

definition message :: "env \<Rightarrow> error \<Rightarrow> string" where
  "message env e =
     (case e of GitHubError status \<Rightarrow> ''GitHub API error: '' @ string_of_nat status
      | _ \<Rightarrow> native_message env e)"

section \<open>The page\<close>

text \<open>
  The state the script reads and writes: the two storage areas, the DOM nodes that its
  listeners read or write, the location hash and its two globals \<^verbatim>\<open>repos\<close> and
  \<^verbatim>\<open>curated\<close>.  (The links that the top of the file fills once, to the resume, the mail
  address and the social profiles, are left out.)  \<open>requests\<close> and \<open>alerts\<close> record, in order, the calls of
  \<^verbatim>\<open>fetch\<close> and \<^verbatim>\<open>alert\<close>.
\<close>

record element =
  className :: string
  innerHTML :: string

record page =
  localStorage :: "string \<Rightarrow> string option"
  sessionStorage :: "string \<Rightarrow> string option"
  dark :: bool
  themeIcon_textContent :: string
  usernameInput_value :: string
  tokenInput_value :: string
  searchInput_value :: string
  langFilter_value :: string
  langFilter_innerHTML :: string
  ghLink_textContent :: string
  ghLink_href :: string
  loadBtn_disabled :: bool
  loadBtn_textContent :: string
  projectsGrid :: "element list"
  projectsEmpty_hidden :: bool
  projectModal_hidden :: bool
  projectDetail_innerHTML :: string
  location_hash :: string
  repos :: "jsval list"
  curated :: jsval
  requests :: "request list"
  alerts :: "string list"

text \<open>Non-ASCII text of the source file, as the bytes the file holds.\<close>

definition glyph_star :: string where
  "glyph_star = [CHR 0xC3, CHR 0xA2, CHR 0xCB, CHR 0x9C, CHR 0xE2, CHR 0x80, CHR 0xA6]"

definition glyph_dash :: string where
  "glyph_dash = [CHR 0xC3, CHR 0xA2, CHR 0xE2, CHR 0x82, CHR 0xAC, CHR 0xE2, CHR 0x80, CHR 0x9D]"

definition glyph_ellipsis :: string where
  "glyph_ellipsis = [CHR 0xC3, CHR 0xA2, CHR 0xE2, CHR 0x82, CHR 0xAC, CHR 0xC2, CHR 0xA6]"

definition glyph_bullet :: string where
  "glyph_bullet = [CHR 0xC3, CHR 0xA2, CHR 0xE2, CHR 0x82, CHR 0xAC, CHR 0xC2, CHR 0xA2]"

definition glyph_sun :: string where
  "glyph_sun = [CHR 0xC3, CHR 0xA2, CHR 0xCB, CHR 0x9C, CHR 0xE2, CHR 0x82, CHR 0xAC,
                CHR 0xC3, CHR 0xAF, CHR 0xC2, CHR 0xB8]"

definition glyph_moon :: string where
  "glyph_moon = [CHR 0xC3, CHR 0xB0, CHR 0xC5, CHR 0xB8, CHR 0xC5, CHR 0x92, CHR 0xE2, CHR 0x84, CHR 0xA2]"

definition DEFAULT_USERNAME :: string where
  "DEFAULT_USERNAME = ''erwanngao-maker''"

subsection \<open>Theme and session token\<close>

definition applyTheme :: "string \<Rightarrow> page \<Rightarrow> page" where
  "applyTheme theme st =
     (if theme = ''dark''
      then st\<lparr>dark := True, themeIcon_textContent := glyph_sun\<rparr>
      else st\<lparr>dark := False, themeIcon_textContent := glyph_moon\<rparr>)
     \<lparr>localStorage := (localStorage st)(''theme'' \<mapsto> theme)\<rparr>"

definition themeToggle_click :: "page \<Rightarrow> page" where
  "themeToggle_click st = applyTheme (if dark st then ''light'' else ''dark'') st"

definition sessionToken :: "page \<Rightarrow> string" where
  "sessionToken st = (case sessionStorage st ''GHTOKEN'' of None \<Rightarrow> [] | Some t \<Rightarrow> t)"

definition setSessionToken :: "string \<Rightarrow> page \<Rightarrow> page" where
  "setSessionToken t st =
     (if t \<noteq> [] then st\<lparr>sessionStorage := (sessionStorage st)(''GHTOKEN'' \<mapsto> t)\<rparr>
      else st\<lparr>sessionStorage := (sessionStorage st)(''GHTOKEN'' := None)\<rparr>)"

definition clearToken_click :: "page \<Rightarrow> page" where
  "clearToken_click st =
     (setSessionToken [] st)
       \<lparr>tokenInput_value := [], alerts := alerts st @ [''Token cleared from this session.'']\<rparr>"

text \<open>The top level of the script, run once when the page has been parsed.\<close>

definition script_start :: "page \<Rightarrow> page" where
  "script_start st =
     (let st1 = st\<lparr>usernameInput_value := DEFAULT_USERNAME,
                    ghLink_textContent := DEFAULT_USERNAME,
                    ghLink_href := ''https://github.com/'' @ DEFAULT_USERNAME\<rparr>;
          st2 = applyTheme (case localStorage st1 ''theme'' of
                              None \<Rightarrow> ''dark''
                            | Some t \<Rightarrow> if t \<noteq> [] then t else ''dark'') st1
      in st2\<lparr>tokenInput_value := sessionToken st2\<rparr>)"

subsection \<open>Requests\<close>

definition buildHeaders :: "bool \<Rightarrow> page \<Rightarrow> (string \<times> string) list" where
  "buildHeaders acceptPreview st =
     (let t = (if sessionToken st \<noteq> [] then sessionToken st else trim (tokenInput_value st)) in
      [(''Content-Type'', ''application/json'')]
      @ (if t \<noteq> [] then [(''Authorization'', ''token '' @ t)] else [])
      @ (if acceptPreview then [(''Accept'', ''application/vnd.github.mercy-preview+json'')] else []))"

definition do_fetch :: "env \<Rightarrow> request \<Rightarrow> page \<Rightarrow> response \<times> page" where
  "do_fetch env rq st = (fetch env rq, st\<lparr>requests := requests st @ [rq]\<rparr>)"

text \<open>
  \<^verbatim>\<open>loadCurated\<close>.  The loop \<^verbatim>\<open>for (const p of json) if (p.repo) obj[p.repo] = p\<close>
  is \<open>index_by_repo\<close>; \<open>loadCurated_try\<close> is the body of the \<^verbatim>\<open>try\<close> block, given the
  outcome of the fetch.
\<close>

fun index_by_repo :: "jsval list \<Rightarrow> (string \<times> jsval) list \<Rightarrow> error + (string \<times> jsval) list" where
  "index_by_repo [] obj = Inr obj"
| "index_by_repo (p # ps) obj =
     (case get p ''repo'' of
        Inl e \<Rightarrow> Inl e
      | Inr k \<Rightarrow> index_by_repo ps (if truthy k then AList.update (ToString k) p obj else obj))"

definition loadCurated_try :: "response \<Rightarrow> error + jsval" where
  "loadCurated_try res =
     (case res of
        NetworkFailure \<Rightarrow> Inl NetworkError
      | Response status body \<Rightarrow>
          if \<not> ok status then Inr (Obj [])
          else (case body of
                  None \<Rightarrow> Inl SyntaxError
                | Some json \<Rightarrow>
                    (case json of
                       Arr ps \<Rightarrow> bindE (index_by_repo ps []) (\<lambda>obj. Inr (Obj obj))
                     | _ \<Rightarrow> Inr (js_or json (Obj [])))))"

definition loadCurated_request :: request where
  "loadCurated_request = \<lparr>url = ''/projects/projects.json'', headers = [], cache = Some ''no-store''\<rparr>"

definition loadCurated :: "env \<Rightarrow> page \<Rightarrow> jsval \<times> page" where
  "loadCurated env st =
     (let (res, st1) = do_fetch env loadCurated_request st in
      (case loadCurated_try res of Inl e \<Rightarrow> Obj [] | Inr v \<Rightarrow> v, st1))"

definition fetchRepos_url :: "string \<Rightarrow> string" where
  "fetchRepos_url username =
     ''https://api.github.com/users/'' @ username @ ''/repos?per_page=100&sort=updated''"

definition fetchRepos :: "env \<Rightarrow> string \<Rightarrow> page \<Rightarrow> (error + jsval) \<times> page" where
  "fetchRepos env username st =
     (let (res, st1) = do_fetch env
            \<lparr>url = fetchRepos_url username, headers = buildHeaders False st, cache = None\<rparr> st
      in (case res of
            NetworkFailure \<Rightarrow> Inl NetworkError
          | Response status body \<Rightarrow>
              if \<not> ok status then Inl (GitHubError status)
              else (case body of None \<Rightarrow> Inl SyntaxError | Some data \<Rightarrow> Inr data),
          st1))"

definition fetchTopics :: "env \<Rightarrow> jsval \<Rightarrow> jsval \<Rightarrow> page \<Rightarrow> (error + jsval) \<times> page" where
  "fetchTopics env owner repo st =
     (let (res, st1) = do_fetch env
            \<lparr>url = ''https://api.github.com/repos/'' @ ToString owner @ ''/'' @ ToString repo @ ''/topics'',
             headers = buildHeaders True st, cache = None\<rparr> st
      in (case res of
            NetworkFailure \<Rightarrow> Inl NetworkError
          | Response status body \<Rightarrow>
              if \<not> ok status then Inr (Arr [])
              else (case body of
                      None \<Rightarrow> Inl SyntaxError
                    | Some json \<Rightarrow> bindE (get json ''names'') (\<lambda>names. Inr (js_or names (Arr [])))),
          st1))"

definition fetchReadme :: "env \<Rightarrow> jsval \<Rightarrow> jsval \<Rightarrow> page \<Rightarrow> (error + jsval) \<times> page" where
  "fetchReadme env owner repo st =
     (let (res, st1) = do_fetch env
            \<lparr>url = ''https://api.github.com/repos/'' @ ToString owner @ ''/'' @ ToString repo @ ''/readme'',
             headers = buildHeaders False st, cache = None\<rparr> st
      in (case res of
            NetworkFailure \<Rightarrow> Inl NetworkError
          | Response status body \<Rightarrow>
              if \<not> ok status then Inr Null
              else (case body of
                      None \<Rightarrow> Inl SyntaxError
                    | Some json \<Rightarrow>
                        bindE (get json ''content'') (\<lambda>content.
                          if truthy content
                          then bindE (as_string content) (\<lambda>c.
                                 bindE (atob (filter (\<lambda>x. x \<noteq> CHR 0x0A) c)) (\<lambda>decoded.
                                   Inr (Str decoded)))
                          else Inr Null)),
          st1))"

subsection \<open>Rendering the grid\<close>

fun mapE :: "('a \<Rightarrow> error + 'b) \<Rightarrow> 'a list \<Rightarrow> error + 'b list" where
  "mapE f [] = Inr []"
| "mapE f (x # xs) =
     (case f x of
        Inl e \<Rightarrow> Inl e
      | Inr y \<Rightarrow> (case mapE f xs of Inl e \<Rightarrow> Inl e | Inr ys \<Rightarrow> Inr (y # ys)))"

fun filterE :: "('a \<Rightarrow> error + bool) \<Rightarrow> 'a list \<Rightarrow> error + 'a list" where
  "filterE f [] = Inr []"
| "filterE f (x # xs) =
     (case f x of
        Inl e \<Rightarrow> Inl e
      | Inr b \<Rightarrow> (case filterE f xs of Inl e \<Rightarrow> Inl e | Inr ys \<Rightarrow> Inr (if b then x # ys else ys)))"

text \<open>\<open>a && a.k\<close>: the value of \<open>a\<close> when it is falsy, the property otherwise.\<close>

definition and_get :: "jsval \<Rightarrow> string \<Rightarrow> error + jsval" where
  "and_get a k = (if truthy a then get a k else Inr a)"

definition span_html :: "jsval \<Rightarrow> string" where
  \<open>span_html t =
     ''<span class="px-2 py-1 rounded-md bg-slate-100 dark:bg-slate-700">'' @ ToString t @ ''</span>''\<close>

text \<open>The template literal assigned to \<^verbatim>\<open>card.innerHTML\<close>, hole by hole.\<close>

definition card_html :: "jsval \<Rightarrow> error + string" where
  \<open>card_html r =
     bindE (get r ''full_name'') (\<lambda>full_name.
     bindE (get r ''name'') (\<lambda>name.
     bindE (get r ''description'') (\<lambda>description.
     bindE (get r ''_curated'') (\<lambda>c.
     bindE (and_get c ''short'') (\<lambda>short.
     bindE (and_get c ''tags'') (\<lambda>tags.
     bindE (if truthy tags
            then bindE (as_array tags) (\<lambda>ts. Inr (concat (map span_html ts)))
            else bindE (get r ''language'') (\<lambda>language.
                   Inr (if truthy language then span_html language else []))) (\<lambda>tags_html.
     bindE (get r ''stargazers_count'') (\<lambda>stargazers_count.
     bindE (get r ''homepage'') (\<lambda>homepage.
     bindE (get r ''html_url'') (\<lambda>html_url.
       Inr (''\<newline>'' @
            ''      <div class="flex items-start justify-between gap-3">\<newline>'' @
            ''        <div>\<newline>'' @
            ''          <h3 class="font-semibold text-lg"><a href="#" data-repo="'' @
            ToString full_name @
            ''" class="project-link">'' @
            ToString name @
            ''</a></h3>\<newline>'' @
            ''          <p class="mt-1 text-sm text-slate-600 dark:text-slate-300 card-clamp">'' @
            ToString (js_or (js_or description short) (Str glyph_dash)) @
            ''</p>\<newline>'' @
            ''          <div class="mt-3 flex flex-wrap gap-2 text-xs">'' @
            tags_html @
            ''</div>\<newline>'' @
            ''        </div>\<newline>'' @
            ''        <div class="text-right flex-shrink-0">\<newline>'' @
            ''          <div class="text-sm text-slate-500 dark:text-slate-400">'' @
            glyph_star @ '' '' @
            ToString (js_or stargazers_count (Num 0)) @
            ''</div>\<newline>'' @
            ''          <div class="mt-4 flex flex-col gap-2">\<newline>'' @
            ''            <a class="inline-block text-xs px-2 py-1 rounded-md border" href="'' @
            ToString (js_or homepage html_url) @
            ''" target="_blank">Open</a>\<newline>'' @
            ''            <a class="inline-block text-xs px-2 py-1 rounded-md border" href="'' @
            ToString html_url @
            ''" target="_blank">Repo</a>\<newline>'' @
            ''          </div>\<newline>'' @
            ''        </div>\<newline>'' @
            ''      </div>\<newline>'' @
            ''    '')))))))))))\<close>

definition card :: "string \<Rightarrow> element" where
  "card h = \<lparr>className = ''rounded-lg border p-4 bg-white dark:bg-slate-800 shadow-sm'',
            innerHTML = h\<rparr>"

text \<open>
  The loop of \<^verbatim>\<open>renderGrid\<close>: one \<^verbatim>\<open>article\<close> appended per entry.  An exception
  leaves the cards appended so far.
\<close>

fun render_cards :: "jsval list \<Rightarrow> page \<Rightarrow> (error + unit) \<times> page" where
  "render_cards [] st = (Inr (), st)"
| "render_cards (r # rs) st =
     (case card_html r of
        Inl e \<Rightarrow> (Inl e, st)
      | Inr h \<Rightarrow> render_cards rs (st\<lparr>projectsGrid := projectsGrid st @ [card h]\<rparr>))"

definition renderGrid :: "jsval list \<Rightarrow> page \<Rightarrow> (error + unit) \<times> page" where
  "renderGrid list st =
     (let st1 = st\<lparr>projectsGrid := []\<rparr> in
      if list = [] then (Inr (), st1\<lparr>projectsEmpty_hidden := False\<rparr>)
      else render_cards list (st1\<lparr>projectsEmpty_hidden := True\<rparr>))"

subsection \<open>Filters\<close>

text \<open>
  \<^verbatim>\<open>buildLangOptions\<close>.  Replacing the options of the select leaves its first option,
  the one with the empty value, selected.
\<close>

definition option_html :: "jsval \<Rightarrow> string" where
  \<open>option_html l = ''<option value="'' @ ToString l @ ''">'' @ ToString l @ ''</option>''\<close>

definition buildLangOptions :: "jsval list \<Rightarrow> page \<Rightarrow> (error + unit) \<times> page" where
  \<open>buildLangOptions list st =
     (case mapE (\<lambda>r. get r ''language'') list of
        Inl e \<Rightarrow> (Inl e, st)
      | Inr ls \<Rightarrow>
          (let langs = sort_key ToString (rev (remdups (rev (filter truthy ls)))) in
           (Inr (), st\<lparr>langFilter_innerHTML :=
                          ''<option value="">All languages</option>'' @ concat (map option_html langs),
                        langFilter_value := []\<rparr>)))\<close>

text \<open>The callback of \<^verbatim>\<open>repos.filter\<close> in \<^verbatim>\<open>applyFilters\<close>.\<close>

definition filter_callback :: "string \<Rightarrow> string \<Rightarrow> jsval \<Rightarrow> error + bool" where
  "filter_callback q lang r =
     bindE (if lang \<noteq> [] then bindE (get r ''language'') (\<lambda>l. Inr (l \<noteq> Str lang)) else Inr False)
       (\<lambda>rejected.
          if rejected then Inr False
          else if q = [] then Inr True
          else
            bindE (get r ''name'') (\<lambda>name.
            bindE (get r ''description'') (\<lambda>description.
            bindE (get r ''language'') (\<lambda>language.
            bindE (get r ''_curated'') (\<lambda>c.
            bindE (and_get c ''tags'') (\<lambda>tags.
            bindE (if truthy tags then bindE (as_array tags) (\<lambda>ts. Inr (Str (join '' '' ts)))
                   else Inr (Str [])) (\<lambda>tag_text.
              Inr (includes_str
                     (toLowerCase (join '' '' (filter truthy [name, description, language, tag_text])))
                     q))))))))"

definition applyFilters :: "page \<Rightarrow> (error + unit) \<times> page" where
  "applyFilters st =
     (let q = toLowerCase (trim (searchInput_value st));
          lang = langFilter_value st
      in case filterE (filter_callback q lang) (repos st) of
           Inl e \<Rightarrow> (Inl e, st)
         | Inr filtered \<Rightarrow> renderGrid filtered st)"

subsection \<open>The project modal\<close>

definition loading_html :: "jsval \<Rightarrow> string" where
  \<open>loading_html repo =
     ''<h2 class="text-xl font-bold mb-2">'' @ ToString repo @
     ''</h2><div class="text-sm text-slate-500 mb-4">Loading details'' @ glyph_ellipsis @ ''</div>''\<close>

definition no_readme_html :: string where
  \<open>no_readme_html = ''<p class="text-sm text-slate-500">No README found.</p>''\<close>

definition failure_html :: "env \<Rightarrow> error \<Rightarrow> string" where
  \<open>failure_html env err =
     ''<div class="text-sm text-rose-600">Could not load project details: '' @ message env err @ ''</div>''\<close>

text \<open>Lines 258 to 267: the HTML of the README section.\<close>

definition readme_html :: "env \<Rightarrow> jsval \<Rightarrow> string" where
  "readme_html env readme =
     (if truthy readme then DOMPurify_sanitize env (marked_parse env (ToString readme))
      else no_readme_html)"

text \<open>The template literal of the detail view, hole by hole.\<close>

definition detail_html :: "env \<Rightarrow> jsval \<Rightarrow> jsval \<Rightarrow> jsval \<Rightarrow> string \<Rightarrow> error + string" where
  \<open>detail_html env r curatedData topics mdHtml =
     bindE (get r ''name'') (\<lambda>name.
     bindE (get r ''description'') (\<lambda>description.
     bindE (get r ''updated_at'') (\<lambda>updated_at.
     bindE (get r ''stargazers_count'') (\<lambda>stargazers_count.
     bindE (and_get curatedData ''tags'') (\<lambda>tags.
     bindE (as_array (if truthy tags then tags else Arr [])) (\<lambda>curated_tags.
     bindE (as_array topics) (\<lambda>topic_list.
     bindE (get r ''html_url'') (\<lambda>html_url.
     bindE (get r ''homepage'') (\<lambda>homepage.
       Inr (''\<newline>'' @
            ''      <div class="mb-2">\<newline>'' @
            ''        <div class="flex items-start justify-between gap-4">\<newline>'' @
            ''          <div>\<newline>'' @
            ''            <h2 class="text-2xl font-bold">'' @
            ToString name @
            ''</h2>\<newline>'' @
            ''            <div class="text-sm text-slate-500">'' @
            ToString (js_or description (Str [])) @
            ''</div>\<newline>'' @
            ''            <div class="mt-2 text-xs text-slate-400">Updated '' @
            toLocaleDateString env updated_at @
            '' '' @ glyph_bullet @ '' '' @ glyph_star @ '' '' @
            ToString stargazers_count @
            ''</div>\<newline>'' @
            ''            <div class="mt-3 flex gap-2">'' @
            concat (map span_html curated_tags) @
            concat (map span_html topic_list) @
            ''</div>\<newline>'' @
            ''          </div>\<newline>'' @
            ''          <div class="text-right">\<newline>'' @
            ''            <a class="px-3 py-2 rounded-md border" href="'' @
            ToString html_url @
            ''" target="_blank">Repository</a>\<newline>'' @
            ''            '' @
            (if truthy homepage
             then ''<a class="ml-2 px-3 py-2 rounded-md border" href="'' @ ToString homepage @
                  ''" target="_blank">Live</a>''
             else []) @
            ''\<newline>'' @
            ''          </div>\<newline>'' @
            ''        </div>\<newline>'' @
            ''      </div>\<newline>'' @
            ''\<newline>'' @
            ''      <div class="prose max-w-none dark:prose-invert">'' @
            mdHtml @
            ''</div>\<newline>'' @
            ''    ''))))))))))\<close>

text \<open>\<^verbatim>\<open>repos.find((x) => x.full_name.toLowerCase() === fullName.toLowerCase())\<close>\<close>

fun find_repo :: "string \<Rightarrow> jsval list \<Rightarrow> error + jsval" where
  "find_repo fullName [] = Inr Undefined"
| "find_repo fullName (x # xs) =
     (case bindE (get x ''full_name'') as_string of
        Inl e \<Rightarrow> Inl e
      | Inr s \<Rightarrow> if toLowerCase s = toLowerCase fullName then Inr x else find_repo fullName xs)"

text \<open>
  \<^verbatim>\<open>openProject\<close>.  The result \<open>Inl e\<close> is a rejected promise: the exception of the
  \<^verbatim>\<open>find\<close> callback, raised before the \<^verbatim>\<open>try\<close> block.  The two fetches are started one
  after the other before either is awaited, each with its own \<^verbatim>\<open>.catch\<close>.
  \<open>owner_of\<close> and \<open>repo_of\<close> are the destructuring
  \<^verbatim>\<open>const [owner, repo] = fullName.split("/")\<close>.
\<close>

definition owner_of :: "string \<Rightarrow> jsval" where
  "owner_of fullName = (case split CHR ''/'' fullName of [] \<Rightarrow> Undefined | a # _ \<Rightarrow> Str a)"

definition repo_of :: "string \<Rightarrow> jsval" where
  "repo_of fullName = (case split CHR ''/'' fullName of _ # b # _ \<Rightarrow> Str b | _ \<Rightarrow> Undefined)"

definition openProject :: "env \<Rightarrow> string \<Rightarrow> page \<Rightarrow> (error + unit) \<times> page" where
  "openProject env fullName st =
     (let st1 = st\<lparr>location_hash := url_hash (''#/project/'' @ fullName)\<rparr>;
          owner = owner_of fullName;
          repo = repo_of fullName;
          st2 = st1\<lparr>projectModal_hidden := False, projectDetail_innerHTML := loading_html repo\<rparr>
      in case find_repo fullName (repos st2) of
           Inl e \<Rightarrow> (Inl e, st2)
         | Inr r \<Rightarrow>
             (let curatedData = (case and_get r ''_curated'' of
                                   Inr c \<Rightarrow> if truthy c then c else Null
                                 | Inl _ \<Rightarrow> Null);
                  (t, st3) = fetchTopics env owner repo st2;
                  (m, st4) = fetchReadme env owner repo st3;
                  topics = (case t of Inl _ \<Rightarrow> Arr [] | Inr v \<Rightarrow> v);
                  readme = (case m of Inl _ \<Rightarrow> Null | Inr v \<Rightarrow> v);
                  mdHtml = readme_html env readme
              in (Inr (),
                  st4\<lparr>projectDetail_innerHTML :=
                        (case detail_html env r curatedData topics mdHtml of
                           Inl err \<Rightarrow> failure_html env err
                         | Inr h \<Rightarrow> h)\<rparr>)))"

text \<open>
  \<^verbatim>\<open>closeModal\<close>.  \<^verbatim>\<open>location.pathname + location.search\<close> is the current URL without
  its fragment.
\<close>

definition closeModal :: "page \<Rightarrow> page" where
  "closeModal st =
     (let st1 = st\<lparr>projectModal_hidden := True, projectDetail_innerHTML := []\<rparr> in
      if startsWith (location_hash st1) ''#/project/'' then st1\<lparr>location_hash := []\<rparr> else st1)"

text \<open>
  \<^verbatim>\<open>handleHash\<close>.  The promise of \<^verbatim>\<open>openProject\<close> is not awaited: only the exception
  of \<^verbatim>\<open>decodeURIComponent\<close> reaches the caller.
\<close>

definition handleHash :: "env \<Rightarrow> page \<Rightarrow> (error + unit) \<times> page" where
  "handleHash env st =
     (let h = location_hash st in
      if startsWith h ''#/project/'' then
        (case decodeURIComponent (replace_first ''#/project/'' [] h) of
           Inl e \<Rightarrow> (Inl e, st)
         | Inr full \<Rightarrow> (Inr (), snd (openProject env full st)))
      else (Inr (), closeModal st))"

subsection \<open>Loading the repositories\<close>

text \<open>The callback of \<^verbatim>\<open>fetched.map\<close>: the curated entry merged over the summary.\<close>

definition merge_curated :: "jsval \<Rightarrow> jsval \<Rightarrow> error + jsval" where
  "merge_curated cur r =
     bindE (get r ''name'') (\<lambda>name.
     bindE (and_get cur (ToString name)) (\<lambda>entry.
       if truthy entry then
         bindE (set_prop r ''_curated'' entry) (\<lambda>r1.
         bindE (get entry ''description'') (\<lambda>description.
           if truthy description then set_prop r1 ''description'' description else Inr r1))
       else Inr r))"

text \<open>The \<^verbatim>\<open>try\<close> block of the click handler of the load button.\<close>

definition load_try :: "env \<Rightarrow> string \<Rightarrow> page \<Rightarrow> (error + unit) \<times> page" where
  "load_try env username st =
     (let (cur, st1) = loadCurated env st;
          st2 = st1\<lparr>curated := cur\<rparr>;
          (fetched, st3) = fetchRepos env username st2
      in case bindE (bindE fetched as_array) (mapE (merge_curated (curated st3))) of
           Inl e \<Rightarrow> (Inl e, st3)
         | Inr merged \<Rightarrow>
             (case buildLangOptions merged (st3\<lparr>repos := merged\<rparr>) of
                (Inl e, st4) \<Rightarrow> (Inl e, st4)
              | (Inr _, st4) \<Rightarrow>
                  (case applyFilters st4 of
                     (Inl e, st5) \<Rightarrow> (Inl e, st5)
                   | (Inr _, st5) \<Rightarrow> handleHash env st5)))"

definition loadBtn_click :: "env \<Rightarrow> page \<Rightarrow> page" where
  "loadBtn_click env st =
     (let username = (if trim (usernameInput_value st) \<noteq> [] then trim (usernameInput_value st)
                      else DEFAULT_USERNAME);
          token = trim (tokenInput_value st);
          st1 = (if token \<noteq> [] then setSessionToken token st else st);
          st2 = st1\<lparr>ghLink_textContent := username,
                    ghLink_href := ''https://github.com/'' @ username,
                    loadBtn_disabled := True,
                    loadBtn_textContent := ''Loading'' @ glyph_ellipsis\<rparr>;
          (res, st3) = load_try env username st2;
          st4 = (case res of
                   Inl err \<Rightarrow> st3\<lparr>alerts := alerts st3 @ [''Error loading repos: '' @ message env err]\<rparr>
                 | Inr _ \<Rightarrow> st3)
      in st4\<lparr>loadBtn_disabled := False, loadBtn_textContent := ''Load projects''\<rparr>)"

subsection \<open>Events\<close>

text \<open>
  Everything that runs code of the script: its top level, the listeners it registers, and
  the timer of the \<^verbatim>\<open>DOMContentLoaded\<close> listener (which also clicks the load button).
  Typing into a field changes its value before the listener, if any, runs;
  \<open>HashChange h\<close> is a navigation to the hash \<open>h\<close>.
\<close>

datatype event =
    ScriptStart
  | ThemeToggleClick
  | ClearTokenClick
  | LoadBtnClick
  | UsernameEdit string
  | TokenEdit string
  | SearchInput string
  | LangFilterChange string
  | ProjectLinkClick string
  | ModalCloseClick
  | ModalClick bool
  | HashChange string
  | HashTimer

fun handle :: "env \<Rightarrow> event \<Rightarrow> page \<Rightarrow> page" where
  "handle env ScriptStart st = script_start st"
| "handle env ThemeToggleClick st = themeToggle_click st"
| "handle env ClearTokenClick st = clearToken_click st"
| "handle env LoadBtnClick st = loadBtn_click env st"
| "handle env (UsernameEdit v) st = st\<lparr>usernameInput_value := v\<rparr>"
| "handle env (TokenEdit v) st = st\<lparr>tokenInput_value := v\<rparr>"
| "handle env (SearchInput v) st = snd (applyFilters (st\<lparr>searchInput_value := v\<rparr>))"
| "handle env (LangFilterChange v) st = snd (applyFilters (st\<lparr>langFilter_value := v\<rparr>))"
| "handle env (ProjectLinkClick full) st = snd (openProject env full st)"
| "handle env ModalCloseClick st = closeModal st"
| "handle env (ModalClick has_data_close) st = (if has_data_close then closeModal st else st)"
| "handle env (HashChange h) st = snd (handleHash env (st\<lparr>location_hash := h\<rparr>))"
| "handle env HashTimer st = snd (handleHash env st)"

section \<open>Vocabulary of the properties\<close>

text \<open>
  The definitions of this section are not part of the script: they are the words in which
  the properties below are stated.
\<close>

text \<open>A property read that cannot fail: \<open>undefined\<close> where the script would throw.\<close>

definition peek :: "jsval \<Rightarrow> string \<Rightarrow> jsval" where
  "peek v k = (case get v k of Inr x \<Rightarrow> x | Inl _ \<Rightarrow> Undefined)"

text \<open>The curated tags of a repository: the elements of \<^verbatim>\<open>r._curated.tags\<close>, if any.\<close>

definition curated_tags :: "jsval \<Rightarrow> jsval list" where
  "curated_tags r = (case peek (peek r ''_curated'') ''tags'' of Arr ts \<Rightarrow> ts | _ \<Rightarrow> [])"



subsection \<open>Filtering\<close>






subsection \<open>The curated override\<close>







subsection \<open>Requests and the hash\<close>














subsection \<open>Sample inputs\<close>

definition blank_page :: page where
  "blank_page =
     \<lparr>localStorage = Map.empty, sessionStorage = Map.empty, dark = False,
      themeIcon_textContent = [], usernameInput_value = [], tokenInput_value = [],
      searchInput_value = [], langFilter_value = [], langFilter_innerHTML = [],
      ghLink_textContent = [], ghLink_href = [], loadBtn_disabled = False,
      loadBtn_textContent = ''Load projects'', projectsGrid = [], projectsEmpty_hidden = True,
      projectModal_hidden = True, projectDetail_innerHTML = [], location_hash = [],
      repos = [], curated = Obj [], requests = [], alerts = []\<rparr>"

text \<open>
  An environment that answers by URL.  The libraries are stand-ins that tag their input;
  the theorems below hold for every environment.
\<close>

definition sample_env :: "(string \<Rightarrow> response) \<Rightarrow> env" where
  "sample_env net =
     \<lparr>fetch = (\<lambda>rq. net (url rq)),
      marked_parse = (\<lambda>s. ''<md>'' @ s @ ''</md>''),
      DOMPurify_sanitize = (\<lambda>s. ''<clean>'' @ s @ ''</clean>''),
      toLocaleDateString = ToString,
      native_message = (\<lambda>e. ''error'')\<rparr>"

definition offline :: "string \<Rightarrow> response" where
  "offline u = NetworkFailure"






section \<open>Basic facts\<close>



subsection \<open>What each function leaves alone\<close>

lemma do_fetch_frame [simp]:
  "localStorage (snd (do_fetch env rq st)) = localStorage st"
  "sessionStorage (snd (do_fetch env rq st)) = sessionStorage st"
  "tokenInput_value (snd (do_fetch env rq st)) = tokenInput_value st"
  "repos (snd (do_fetch env rq st)) = repos st"
  "curated (snd (do_fetch env rq st)) = curated st"
  "location_hash (snd (do_fetch env rq st)) = location_hash st"
  "requests (snd (do_fetch env rq st)) = requests st @ [rq]"
  "fst (do_fetch env rq st) = fetch env rq"
  by (simp_all add: do_fetch_def)

lemma loadCurated_frame [simp]:
  "localStorage (snd (loadCurated env st)) = localStorage st"
  "sessionStorage (snd (loadCurated env st)) = sessionStorage st"
  "tokenInput_value (snd (loadCurated env st)) = tokenInput_value st"
  "repos (snd (loadCurated env st)) = repos st"
  "location_hash (snd (loadCurated env st)) = location_hash st"
  "requests (snd (loadCurated env st)) = requests st @ [loadCurated_request]"
  by (simp_all add: loadCurated_def do_fetch_def)

lemma fetchRepos_frame [simp]:
  "localStorage (snd (fetchRepos env u st)) = localStorage st"
  "sessionStorage (snd (fetchRepos env u st)) = sessionStorage st"
  "repos (snd (fetchRepos env u st)) = repos st"
  "curated (snd (fetchRepos env u st)) = curated st"
  "location_hash (snd (fetchRepos env u st)) = location_hash st"
  by (simp_all add: fetchRepos_def do_fetch_def)

lemma fetchTopics_frame [simp]:
  "localStorage (snd (fetchTopics env a b st)) = localStorage st"
  "sessionStorage (snd (fetchTopics env a b st)) = sessionStorage st"
  "tokenInput_value (snd (fetchTopics env a b st)) = tokenInput_value st"
  "repos (snd (fetchTopics env a b st)) = repos st"
  "location_hash (snd (fetchTopics env a b st)) = location_hash st"
  "projectModal_hidden (snd (fetchTopics env a b st)) = projectModal_hidden st"
  by (simp_all add: fetchTopics_def do_fetch_def)

lemma fetchReadme_frame [simp]:
  "localStorage (snd (fetchReadme env a b st)) = localStorage st"
  "sessionStorage (snd (fetchReadme env a b st)) = sessionStorage st"
  "repos (snd (fetchReadme env a b st)) = repos st"
  "location_hash (snd (fetchReadme env a b st)) = location_hash st"
  "projectModal_hidden (snd (fetchReadme env a b st)) = projectModal_hidden st"
  by (simp_all add: fetchReadme_def do_fetch_def)

lemma render_cards_frame [simp]:
  "localStorage (snd (render_cards rs st)) = localStorage st"
  "sessionStorage (snd (render_cards rs st)) = sessionStorage st"
  "repos (snd (render_cards rs st)) = repos st"
  "location_hash (snd (render_cards rs st)) = location_hash st"
  "projectsEmpty_hidden (snd (render_cards rs st)) = projectsEmpty_hidden st"
  by (induction rs arbitrary: st; simp split: sum.splits)+

lemma renderGrid_frame [simp]:
  "localStorage (snd (renderGrid rs st)) = localStorage st"
  "sessionStorage (snd (renderGrid rs st)) = sessionStorage st"
  "repos (snd (renderGrid rs st)) = repos st"
  "location_hash (snd (renderGrid rs st)) = location_hash st"
  by (simp_all add: renderGrid_def Let_def)

lemma applyFilters_frame [simp]:
  "localStorage (snd (applyFilters st)) = localStorage st"
  "sessionStorage (snd (applyFilters st)) = sessionStorage st"
  "repos (snd (applyFilters st)) = repos st"
  "location_hash (snd (applyFilters st)) = location_hash st"
  by (simp_all add: applyFilters_def Let_def split: sum.splits)

lemma buildLangOptions_frame [simp]:
  "localStorage (snd (buildLangOptions rs st)) = localStorage st"
  "sessionStorage (snd (buildLangOptions rs st)) = sessionStorage st"
  "repos (snd (buildLangOptions rs st)) = repos st"
  "location_hash (snd (buildLangOptions rs st)) = location_hash st"
  by (simp_all add: buildLangOptions_def Let_def split: sum.splits)

lemma openProject_frame [simp]:
  "localStorage (snd (openProject env full st)) = localStorage st"
  "sessionStorage (snd (openProject env full st)) = sessionStorage st"
  "repos (snd (openProject env full st)) = repos st"
  by (simp_all add: openProject_def Let_def case_prod_beta split: sum.splits)

lemma closeModal_frame [simp]:
  "localStorage (closeModal st) = localStorage st"
  "sessionStorage (closeModal st) = sessionStorage st"
  "repos (closeModal st) = repos st"
  by (simp_all add: closeModal_def Let_def)

lemma handleHash_frame [simp]:
  "localStorage (snd (handleHash env st)) = localStorage st"
  "sessionStorage (snd (handleHash env st)) = sessionStorage st"
  "repos (snd (handleHash env st)) = repos st"
  by (simp_all add: handleHash_def Let_def split: sum.splits)

lemma load_try_frame [simp]:
  "localStorage (snd (load_try env u st)) = localStorage st"
  "sessionStorage (snd (load_try env u st)) = sessionStorage st"
  by (simp_all add: load_try_def Let_def case_prod_beta split: sum.splits)

lemma loadBtn_click_localStorage [simp]:
  "localStorage (loadBtn_click env st) = localStorage st"
  by (simp add: loadBtn_click_def Let_def case_prod_beta setSessionToken_def split: sum.splits)

lemma loadBtn_click_sessionStorage:
  "k \<noteq> ''GHTOKEN'' \<Longrightarrow> sessionStorage (loadBtn_click env st) k = sessionStorage st k"
  by (simp add: loadBtn_click_def Let_def case_prod_beta setSessionToken_def split: sum.splits)

section \<open>The curated merge\<close>



section \<open>Storage\<close>

text \<open>
  C4, as amended.  Whatever the event, the script leaves every key of the persistent
  storage (\<^verbatim>\<open>localStorage\<close>) as it was, except \<^verbatim>\<open>theme\<close>, and every key of the
  session storage as it was, except \<^verbatim>\<open>GHTOKEN\<close>.
\<close>

theorem storage_footprint:
  "(k \<noteq> ''theme'' \<longrightarrow> localStorage (handle env ev st) k = localStorage st k) \<and>
   (k \<noteq> ''GHTOKEN'' \<longrightarrow> sessionStorage (handle env ev st) k = sessionStorage st k)"
proof (cases ev)
  case ScriptStart
  then show ?thesis
    by (simp add: script_start_def applyTheme_def Let_def)
next
  case ThemeToggleClick
  then show ?thesis
    by (simp add: themeToggle_click_def applyTheme_def)
next
  case ClearTokenClick
  then show ?thesis
    by (simp add: clearToken_click_def setSessionToken_def)
next
  case LoadBtnClick
  then show ?thesis
    by (simp add: loadBtn_click_sessionStorage)
qed simp_all

theorem storage_footprint_witness:
  "localStorage (handle (sample_env offline) ThemeToggleClick blank_page) ''lang'' = None \<and>
   sessionStorage (handle (sample_env offline) LoadBtnClick (blank_page\<lparr>tokenInput_value := ''t0''\<rparr>))
     ''other'' = None"
proof -
  have a: "localStorage (handle (sample_env offline) ThemeToggleClick blank_page) ''lang''
             = localStorage blank_page ''lang''"
    using storage_footprint [of "''lang''" "sample_env offline" ThemeToggleClick blank_page]
    by simp
  have b: "sessionStorage (handle (sample_env offline) LoadBtnClick (blank_page\<lparr>tokenInput_value := ''t0''\<rparr>))
             ''other'' = sessionStorage (blank_page\<lparr>tokenInput_value := ''t0''\<rparr>) ''other''"
    using storage_footprint [of "''other''" "sample_env offline" LoadBtnClick
                                "blank_page\<lparr>tokenInput_value := ''t0''\<rparr>"]
    by simp
  show ?thesis
    unfolding a b by (simp add: blank_page_def)
qed

text \<open>
  The specification's sentence fails: toggling the theme on a page whose persistent
  storage is empty writes the key \<^verbatim>\<open>theme\<close> there.
\<close>

theorem theme_written_to_localStorage:
  "localStorage blank_page ''theme'' = None \<and>
   localStorage (handle (sample_env offline) ThemeToggleClick blank_page) ''theme'' = Some ''dark''"
  by (simp add: themeToggle_click_def applyTheme_def blank_page_def)

section \<open>Loading the curated override\<close>





section \<open>Fetching the repository list\<close>





section \<open>Full names of the merged collection\<close>









section \<open>The grid\<close>










section \<open>Filtering\<close>






section \<open>The location hash\<close>












section \<open>The project modal\<close>




lemma buildHeaders_update [simp]:
  "buildHeaders b (st\<lparr>location_hash := h\<rparr>) = buildHeaders b st"
  "buildHeaders b (st\<lparr>projectModal_hidden := m\<rparr>) = buildHeaders b st"
  "buildHeaders b (st\<lparr>projectDetail_innerHTML := d\<rparr>) = buildHeaders b st"
  "buildHeaders b (st\<lparr>requests := rs\<rparr>) = buildHeaders b st"
  by (simp_all add: buildHeaders_def sessionToken_def)















end
